theory Spec2Isabelle
  imports Complex_Main
begin

section \<open>Conventions of the embedding\<close>

text \<open>
  The bot is JavaScript. Its numbers are modelled as follows.
  \<^item> Prices, amounts, balances and percentages are \<open>real\<close>: the arithmetic of the source is
    read as exact arithmetic. Rounding of IEEE doubles, \<open>NaN\<close> and overflow are outside the model;
    the literal \<open>Infinity\<close> that the performance metrics return is a constructor of its own.
  \<^item> Epoch milliseconds (\<open>Date.now()\<close>, candle timestamps) are \<open>int\<close>.
  \<^item> An optional parameter declared \<open>p = null\<close> is an \<open>option\<close>: \<open>None\<close> is the omitted
    argument (or an explicit \<open>null\<close>).
  \<^item> The file \<open>config/default.json\<close> is not part of the sources; the values the code reads from
    it are the fields of the record \<open>config\<close>, a parameter of every function that reads them.
    The two fields \<open>riskManagement_default...\<close> hold the numbers that \<open>managePosition\<close>
    of the backtester obtains from
    \<open>parseFloat(process.env.DEFAULT_..._PERCENT || config.riskManagement.default...Percent)\<close>.
\<close>

record config =
  risk_maxRiskPerTrade :: real
  risk_minimumBalance :: real
  risk_stopLossPercentage :: real
  risk_takeProfitPercentage :: real
  trading_cooldownPeriod :: int
  riskManagement_defaultStopLossPercent :: real
  riskManagement_defaultTakeProfitPercent :: real

text \<open>
  \<open>a || d\<close> on a number that may be \<open>null\<close>: the left operand is taken when it is truthy,
  that is, when it is a number other than \<open>0\<close>; otherwise the right operand.
\<close>

definition js_or :: "('a::zero) option \<Rightarrow> 'a \<Rightarrow> 'a" where
  "js_or a d = (case a of None \<Rightarrow> d | Some v \<Rightarrow> if v = 0 then d else v)"

section \<open>Risk manager (\<open>src/riskManagement/riskManager.js\<close>)\<close>

text \<open>
  \<open>calculateLotSize\<close>, lines 17 to 43. The division is the real one; for \<open>currentPrice = 0\<close>
  the source divides by zero (giving \<open>Infinity\<close> or \<open>NaN\<close>), which the model does not follow,
  so statements about the quotient are made for \<open>currentPrice \<noteq> 0\<close> only.
\<close>

definition calculateLotSize :: "config \<Rightarrow> string \<Rightarrow> real \<Rightarrow> real \<Rightarrow> real option \<Rightarrow> real" where
  "calculateLotSize cfg symbol currentPrice accountBalance riskPercentage =
     (let riskPercent = js_or riskPercentage (risk_maxRiskPerTrade cfg);
          maxRiskAmount = accountBalance * riskPercent;
          positionSize = maxRiskAmount / currentPrice
      in if accountBalance < risk_minimumBalance cfg then 0
         else
           let maxTradeValue = accountBalance * risk_maxRiskPerTrade cfg;
               calculatedSize = min positionSize (maxTradeValue / currentPrice)
           in max 0 calculatedSize)"

text \<open>\<open>calculateStopLoss\<close>, lines 86 to 96, and \<open>calculateTakeProfit\<close>, lines 105 to 115.\<close>

definition calculateStopLoss :: "config \<Rightarrow> real \<Rightarrow> string \<Rightarrow> real option \<Rightarrow> real" where
  "calculateStopLoss cfg entryPrice side stopLossPercentage =
     (let stopLossPercent = js_or stopLossPercentage (risk_stopLossPercentage cfg)
      in if side = ''buy'' then entryPrice * (1 - stopLossPercent)
         else entryPrice * (1 + stopLossPercent))"

definition calculateTakeProfit :: "config \<Rightarrow> real \<Rightarrow> string \<Rightarrow> real option \<Rightarrow> real" where
  "calculateTakeProfit cfg entryPrice side takeProfitPercentage =
     (let takeProfitPercent = js_or takeProfitPercentage (risk_takeProfitPercentage cfg)
      in if side = ''buy'' then entryPrice * (1 + takeProfitPercent)
         else entryPrice * (1 - takeProfitPercent))"

text \<open>
  \<open>validateCooldown\<close>, lines 191 to 196. The reading of the clock, \<open>Date.now()\<close>, is the
  parameter \<open>now\<close>.
\<close>

definition validateCooldown :: "config \<Rightarrow> int \<Rightarrow> int \<Rightarrow> int option \<Rightarrow> bool" where
  "validateCooldown cfg now lastTradeTime cooldownPeriod =
     (let cooldown = js_or cooldownPeriod (trading_cooldownPeriod cfg);
          timeSinceLastTrade = now - lastTradeTime
      in timeSinceLastTrade \<ge> cooldown)"

text \<open>The configuration of the test fixtures: 2 percent risk per trade, minimum balance 100,
  one hour of cooldown.\<close>

definition test_config :: config where
  "test_config = \<lparr> risk_maxRiskPerTrade = 2 / 100, risk_minimumBalance = 100,
     risk_stopLossPercentage = 5 / 100, risk_takeProfitPercentage = 15 / 100,
     trading_cooldownPeriod = 3600000,
     riskManagement_defaultStopLossPercent = 5 / 100,
     riskManagement_defaultTakeProfitPercent = 15 / 100 \<rparr>"

section \<open>Position monitor of the backtester (\<open>src/backtesting/backtester.js\<close>)\<close>

record position =
  pos_side :: string
  pos_entryPrice :: real
  pos_amount :: real
  pos_stopLossPrice :: real
  pos_takeProfitPrice :: real

datatype exit_action = stop_loss | take_profit

text \<open>
  The decision of \<open>monitorAndExitPositions\<close>, lines 141 to 154: \<open>action\<close> starts as \<open>null\<close>
  (\<open>None\<close>); a side other than \<open>'long'\<close> takes the short branch.
\<close>

definition exitAction :: "position \<Rightarrow> real \<Rightarrow> exit_action option" where
  "exitAction position currentPrice =
     (if pos_side position = ''long'' then
        (if currentPrice \<le> pos_stopLossPrice position then Some stop_loss
         else if currentPrice \<ge> pos_takeProfitPrice position then Some take_profit
         else None)
      else
        (if currentPrice \<ge> pos_stopLossPrice position then Some stop_loss
         else if currentPrice \<le> pos_takeProfitPrice position then Some take_profit
         else None))"

section \<open>Simulated execution adapter of the backtester\<close>

text \<open>
  The order that \<open>executeTrade\<close> builds, lines 99 to 109. The id is the template string
  \<open>bt-${Date.now()}-${tradeLog.length}\<close>; it is kept as the two values it interpolates.
  \<open>datetime\<close> is \<open>new Date().toISOString()\<close>; an ISO string is kept as the epoch
  milliseconds it renders.
\<close>

record trade =
  t_id :: "int \<times> nat"
  t_symbol :: string
  t_side :: string
  t_type :: string
  t_amount :: real
  t_price :: real
  t_status :: string
  t_datetime :: int
  t_fee :: real

record equity_point =
  e_timestamp :: int
  e_balance :: real

text \<open>
  The state the backtester mutates: the module variables \<open>currentBalance\<close>, \<open>tradeLog\<close>
  and \<open>equityCurve\<close>, and the properties \<open>holdings\<close>, \<open>positions\<close> and
  \<open>currentPositions\<close> of \<open>simulatedTradingService\<close>. The objects \<open>holdings\<close> and
  \<open>positions\<close> are created on first use (lines 61 and 85); an object that does not exist yet
  is the empty map.
\<close>

record bt_state =
  currentBalance :: real
  holdings :: "string \<rightharpoonup> real"
  positions :: "string \<rightharpoonup> real"
  tradeLog :: "trade list"
  equityCurve :: "equity_point list"
  currentPositions :: "string \<rightharpoonup> position"

text \<open>
  \<open>if (!m[s]) m[s] = 0\<close> followed by a read of \<open>m[s]\<close>: a missing entry reads as 0.
\<close>

definition qty :: "(string \<rightharpoonup> real) \<Rightarrow> string \<Rightarrow> real" where
  "qty m s = (case m s of None \<Rightarrow> 0 | Some v \<Rightarrow> v)"

definition init_entry :: "(string \<rightharpoonup> real) \<Rightarrow> string \<Rightarrow> (string \<rightharpoonup> real)" where
  "init_entry m s = m(s \<mapsto> qty m s)"

text \<open>
  Lines 84 to 112 of \<open>executeTrade\<close>: the position bookkeeping, the second credit of a sale,
  and the order. \<open>clock\<close> holds the two readings of the wall clock, \<open>Date.now()\<close> of the id
  and \<open>new Date()\<close> of \<open>datetime\<close>.
\<close>

definition trackPosition ::
  "int \<times> int \<Rightarrow> string \<Rightarrow> string \<Rightarrow> string \<Rightarrow> real \<Rightarrow> real \<Rightarrow> bt_state
     \<Rightarrow> trade option \<times> bt_state" where
  "trackPosition clock s side type calculatedAmount tradePrice st =
     (let tradeCost = calculatedAmount * tradePrice;
          st1 = st\<lparr>positions := init_entry (positions st) s\<rparr>
      in if side = ''sell'' \<and> qty (positions st1) s < calculatedAmount then (None, st1)
         else
           let st2 =
                 (if side = ''sell'' then
                    st1\<lparr>currentBalance := currentBalance st1 + tradeCost,
                        positions := (positions st1)(s \<mapsto> qty (positions st1) s - calculatedAmount)\<rparr>
                  else if side = ''buy'' then
                    st1\<lparr>positions := (positions st1)(s \<mapsto> qty (positions st1) s + calculatedAmount)\<rparr>
                  else st1);
               simulatedOrder =
                 \<lparr> t_id = (fst clock, length (tradeLog st2)), t_symbol = s, t_side = side,
                   t_type = type, t_amount = calculatedAmount, t_price = tradePrice,
                   t_status = ''closed'', t_datetime = snd clock,
                   t_fee = tradeCost * (1 / 1000) \<rparr>
           in (Some simulatedOrder, st2\<lparr>tradeLog := tradeLog st2 @ [simulatedOrder]\<rparr>))"

text \<open>
  \<open>executeTrade\<close> of \<open>simulatedTradingService\<close>, lines 36 to 113; \<open>null\<close> is \<open>None\<close>.
  The parameter \<open>metadata\<close> is not read by the body and is left out.

  Lines 39 to 51: a truthy \<open>price\<close> is the trade price. Otherwise the code tests
  \<open>typeof currentCandle !== 'undefined'\<close>; \<open>currentCandle\<close> is a \<open>let\<close> of the loop in
  \<open>runBacktest\<close> and is not in scope of this function, so the test is false and the function
  logs an error and returns \<open>null\<close>.
\<close>

definition executeTrade ::
  "config \<Rightarrow> int \<times> int \<Rightarrow> string \<Rightarrow> string \<Rightarrow> real option \<Rightarrow> string \<Rightarrow> real option \<Rightarrow> bt_state
     \<Rightarrow> trade option \<times> bt_state" where
  "executeTrade cfg clock s side amount type price st =
     (if js_or price 0 = 0 then (None, st)
      else
        let tradePrice = js_or price 0;
            calculatedAmount =
              js_or amount (calculateLotSize cfg s tradePrice (currentBalance st) None)
        in if calculatedAmount \<le> 0 then (None, st)
           else
             let tradeCost = calculatedAmount * tradePrice;
                 st1 = st\<lparr>holdings := init_entry (holdings st) s\<rparr>
             in if side = ''buy'' then
                  (if currentBalance st1 < tradeCost then (None, st1)
                   else trackPosition clock s side type calculatedAmount tradePrice
                          (st1\<lparr>currentBalance := currentBalance st1 - tradeCost,
                               holdings := (holdings st1)(s \<mapsto> qty (holdings st1) s + calculatedAmount)\<rparr>))
                else if side = ''sell'' then
                  (if qty (holdings st1) s < calculatedAmount then (None, st1)
                   else trackPosition clock s side type calculatedAmount tradePrice
                          (st1\<lparr>currentBalance := currentBalance st1 + tradeCost,
                               holdings := (holdings st1)(s \<mapsto> qty (holdings st1) s - calculatedAmount)\<rparr>))
                else trackPosition clock s side type calculatedAmount tradePrice st1)"

text \<open>The state in which \<open>runBacktest\<close> starts a run of a freshly built service.\<close>

definition initialCapital :: real where
  "initialCapital = 10000"

definition fresh_state :: bt_state where
  "fresh_state = \<lparr> currentBalance = initialCapital, holdings = Map.empty, positions = Map.empty,
     tradeLog = [], equityCurve = [], currentPositions = Map.empty \<rparr>"

text \<open>
  A call of \<open>executeTrade\<close> with its arguments and clock readings, and the state left by a
  sequence of calls, each result being dropped.
\<close>

datatype bt_call = BtCall "int \<times> int" string string "real option" string "real option"

fun bt_apply :: "config \<Rightarrow> bt_call \<Rightarrow> bt_state \<Rightarrow> bt_state" where
  "bt_apply cfg (BtCall clock s side amount type price) st =
     snd (executeTrade cfg clock s side amount type price st)"

fun bt_calls :: "config \<Rightarrow> bt_call list \<Rightarrow> bt_state \<Rightarrow> bt_state" where
  "bt_calls cfg [] st = st"
| "bt_calls cfg (c # cs) st = bt_calls cfg cs (bt_apply cfg c st)"

fun bt_call_price :: "bt_call \<Rightarrow> real" where
  "bt_call_price (BtCall clock s side amount type price) = js_or price 0"

definition nonneg :: "(string \<rightharpoonup> real) \<Rightarrow> bool" where
  "nonneg m = (\<forall>k v. m k = Some v \<longrightarrow> 0 \<le> v)"

text \<open>The state after buying one unit at price 100 in a fresh run.\<close>

definition after_buy :: bt_state where
  "after_buy = snd (executeTrade test_config (1000, 1001) ''BTC/USD'' ''buy'' (Some 1)
     ''market'' (Some 100) fresh_state)"

section \<open>Paper trader (\<open>src/paperTrading/paperTrader.js\<close>)\<close>

text \<open>
  The order of \<open>executeTrade\<close>, lines 76 to 86. The id is the template string
  \<open>paper-${side}-${timestamp}\<close>, kept as the two values it interpolates. The price is
  \<open>null\<close> when the order is neither a market nor a limit order and no price is passed.
\<close>

record paper_order =
  p_id :: "string \<times> int"
  p_symbol :: string
  p_side :: string
  p_type :: string
  p_amount :: real
  p_price :: "real option"
  p_status :: string
  p_datetime :: int
  p_fee :: real

text \<open>
  The module variables \<open>currentBalances\<close> and \<open>trades\<close> (\<open>openOrders\<close> is never read or
  written by \<open>executeTrade\<close>). An asset that is not a key of \<open>currentBalances\<close> reads as
  \<open>undefined\<close>; \<open>undefined < x\<close> is false and \<open>undefined + x\<close> is \<open>NaN\<close>, which again
  compares false and stays \<open>NaN\<close> under arithmetic. Both are \<open>None\<close>: an entry that carries
  no number.
\<close>

record paper_state =
  currentBalances :: "string \<rightharpoonup> real"
  trades :: "paper_order list"

datatype js_error = LimitOrderRequiresPrice | TypeError

text \<open>\<open>symbol.split('/')\<close>, and its elements 0 and 1; a missing element 1 is \<open>undefined\<close>,
  which as a property key is the string \<open>undefined\<close>.\<close>

fun split_slash :: "string \<Rightarrow> string list" where
  "split_slash [] = [] # []"
| "split_slash (c # cs) =
     (if c = CHR ''/'' then [] # split_slash cs
      else (case split_slash cs of w # ws \<Rightarrow> (c # w) # ws | [] \<Rightarrow> [c] # []))"

definition baseAsset_of :: "string \<Rightarrow> string" where
  "baseAsset_of symbol = (case split_slash symbol of w # ws \<Rightarrow> w | [] \<Rightarrow> ''undefined'')"

definition quoteAsset_of :: "string \<Rightarrow> string" where
  "quoteAsset_of symbol = (case split_slash symbol of w # q # ws \<Rightarrow> q | _ \<Rightarrow> ''undefined'')"

text \<open>\<open>a < b\<close> and \<open>m[k] += d\<close> on entries that may carry no number.\<close>

definition js_lt :: "real option \<Rightarrow> real \<Rightarrow> bool" where
  "js_lt a b = (case a of None \<Rightarrow> False | Some x \<Rightarrow> x < b)"

definition js_add :: "(string \<rightharpoonup> real) \<Rightarrow> string \<Rightarrow> real \<Rightarrow> (string \<rightharpoonup> real)" where
  "js_add m k d = m(k := map_option (\<lambda>v. v + d) (m k))"

text \<open>
  \<open>executeTrade\<close>, lines 39 to 91. \<open>ticker_last\<close> is the field \<open>last\<close> of the ticker that the
  exchange connector returns for a market order, \<open>timestamp\<close> is the reading of \<open>Date.now()\<close>.
  In \<open>amount * executionPrice\<close> a \<open>null\<close> price counts as 0, which \<open>js_or executionPrice 0\<close>
  computes. The \<open>throw\<close> of line 53 is \<open>Inl\<close>.
\<close>

definition paper_executeTrade ::
  "real \<Rightarrow> int \<Rightarrow> string \<Rightarrow> string \<Rightarrow> real \<Rightarrow> string \<Rightarrow> real option \<Rightarrow> paper_state
     \<Rightarrow> js_error + (paper_order option \<times> paper_state)" where
  "paper_executeTrade ticker_last timestamp symbol side amount type price st =
     (let baseAsset = baseAsset_of symbol;
          quoteAsset = quoteAsset_of symbol;
          orderId = (side, timestamp)
      in if type \<noteq> ''market'' \<and> type = ''limit'' \<and> js_or price 0 = 0
         then Inl LimitOrderRequiresPrice
         else
           let executionPrice = (if type = ''market'' then Some ticker_last else price);
               tradeCost = amount * js_or executionPrice 0
           in if side = ''buy'' \<and> js_lt (currentBalances st quoteAsset) tradeCost
              then Inr (None, st)
              else if side \<noteq> ''buy'' \<and> js_lt (currentBalances st baseAsset) amount
              then Inr (None, st)
              else
                let balances' =
                      (if side = ''buy''
                       then js_add (js_add (currentBalances st) quoteAsset (- tradeCost))
                              baseAsset amount
                       else js_add (js_add (currentBalances st) quoteAsset tradeCost)
                              baseAsset (- amount));
                    order = \<lparr> p_id = orderId, p_symbol = symbol, p_side = side, p_type = type,
                      p_amount = amount, p_price = executionPrice, p_status = ''closed'',
                      p_datetime = timestamp, p_fee = tradeCost * (1 / 1000) \<rparr>
                in Inr (Some order,
                        st\<lparr>currentBalances := balances', trades := trades st @ [order]\<rparr>))"

text \<open>
  A call with its arguments, ticker and clock reading, and the state left by a sequence of
  calls; a call that throws leaves the state as it was (the throw precedes every assignment).
\<close>

datatype paper_call = PaperCall real int string string real string "real option"

fun paper_apply :: "paper_call \<Rightarrow> paper_state \<Rightarrow> paper_state" where
  "paper_apply (PaperCall ticker_last timestamp symbol side amount type price) st =
     (case paper_executeTrade ticker_last timestamp symbol side amount type price st of
        Inl e \<Rightarrow> st | Inr r \<Rightarrow> snd r)"

fun paper_calls :: "paper_call list \<Rightarrow> paper_state \<Rightarrow> paper_state" where
  "paper_calls [] st = st"
| "paper_calls (c # cs) st = paper_calls cs (paper_apply c st)"

fun paper_call_ok :: "paper_call \<Rightarrow> bool" where
  "paper_call_ok (PaperCall ticker_last timestamp symbol side amount type price) =
     (0 \<le> amount \<and> 0 \<le> ticker_last \<and> 0 \<le> js_or price 0)"

text \<open>Lines 10 to 15 and \<open>initializePaperTrader\<close>.\<close>

definition initialBalance :: "string \<rightharpoonup> real" where
  "initialBalance = [''USD'' \<mapsto> 10000, ''BTC'' \<mapsto> 0, ''ETH'' \<mapsto> 0]"

definition initializePaperTrader :: paper_state where
  "initializePaperTrader = \<lparr> currentBalances = initialBalance, trades = [] \<rparr>"

section \<open>Replay loop of the backtester\<close>

record candle =
  c_timestamp :: int
  c_open :: real
  c_high :: real
  c_low :: real
  c_close :: real
  c_volume :: real

text \<open>The argument \<open>strategyRiskConfig\<close> of \<open>managePosition\<close>; a missing property is \<open>None\<close>.\<close>

record risk_config =
  rc_stopLossPercent :: "real option"
  rc_takeProfitPercent :: "real option"

text \<open>\<open>managePosition\<close> of \<open>simulatedTradingService\<close>, lines 115 to 135.\<close>

definition managePosition ::
  "config \<Rightarrow> string \<Rightarrow> string \<Rightarrow> real \<Rightarrow> real \<Rightarrow> risk_config \<Rightarrow> bt_state \<Rightarrow> bt_state" where
  "managePosition cfg s side entryPrice amount strategyRiskConfig st =
     (let defaultStopLossPercent = riskManagement_defaultStopLossPercent cfg;
          defaultTakeProfitPercent = riskManagement_defaultTakeProfitPercent cfg;
          stopLossPercent = js_or (rc_stopLossPercent strategyRiskConfig) defaultStopLossPercent;
          takeProfitPercent =
            js_or (rc_takeProfitPercent strategyRiskConfig) defaultTakeProfitPercent;
          stopLossPrice = (if side = ''long'' then entryPrice * (1 - stopLossPercent)
                           else entryPrice * (1 + stopLossPercent));
          takeProfitPrice = (if side = ''long'' then entryPrice * (1 + takeProfitPercent)
                             else entryPrice * (1 - takeProfitPercent))
      in st\<lparr>currentPositions := (currentPositions st)(s \<mapsto>
            \<lparr> pos_side = side, pos_entryPrice = entryPrice, pos_amount = amount,
              pos_stopLossPrice = stopLossPrice, pos_takeProfitPrice = takeProfitPrice \<rparr>)\<rparr>)"

text \<open>
  The strategy is pluggable (the registered strategy class is not part of the sources). What
  \<open>strategyInstance.run(candle, historicalSlice)\<close> does to the backtester is a sequence of
  calls of \<open>executeTrade\<close> and \<open>managePosition\<close> on the service it was constructed with, each
  call chosen after the result of the previous ones. A run of the strategy on one candle is
  therefore a tree: \<open>Done\<close> with the strategy's new private state, a call of \<open>executeTrade\<close>
  with a continuation that receives the order or \<open>null\<close>, or a call of \<open>managePosition\<close>
  followed by the rest. The strategy is a function of its private state, the candle and the
  history: it is deterministic, does not read the clock, and does not throw.
\<close>

datatype 'st prog =
    Done 'st
  | ExecuteTrade string string "real option" string "real option" "trade option \<Rightarrow> 'st prog"
  | ManagePosition string string real real risk_config "'st prog"

record 'st strategy =
  strat_symbol :: string
  strat_run :: "'st \<Rightarrow> candle \<Rightarrow> candle list \<Rightarrow> 'st prog"
  strat_clearPosition :: "'st \<Rightarrow> 'st"

text \<open>
  Running such a tree against the service. \<open>clock n\<close> holds the two readings of the wall
  clock that \<open>executeTrade\<close> takes when it records the trade whose index in the log is \<open>n\<close>;
  it takes none when it returns \<open>null\<close>.
\<close>

primrec exec_prog ::
  "config \<Rightarrow> (nat \<Rightarrow> int \<times> int) \<Rightarrow> 'st prog \<Rightarrow> bt_state \<Rightarrow> 'st \<times> bt_state" where
  "exec_prog cfg clock (Done x) = (\<lambda>st. (x, st))"
| "exec_prog cfg clock (ExecuteTrade s side amount type price k) =
     (\<lambda>st. let r = executeTrade cfg (clock (length (tradeLog st))) s side amount type price st
           in exec_prog cfg clock (k (fst r)) (snd r))"
| "exec_prog cfg clock (ManagePosition s side entryPrice amount strategyRiskConfig p) =
     (\<lambda>st. exec_prog cfg clock p
             (managePosition cfg s side entryPrice amount strategyRiskConfig st))"

text \<open>
  \<open>monitorAndExitPositions\<close>, lines 137 to 164, on the pair of the strategy's state and the
  backtester's. The position is deleted and the strategy's position cleared whether or not the
  exit trade was executed.
\<close>

definition monitorAndExitPositions ::
  "config \<Rightarrow> (nat \<Rightarrow> int \<times> int) \<Rightarrow> 'st strategy \<Rightarrow> string \<Rightarrow> real \<Rightarrow> 'st \<times> bt_state
     \<Rightarrow> 'st \<times> bt_state" where
  "monitorAndExitPositions cfg clock strategyInstance s currentPrice sst =
     (case currentPositions (snd sst) s of
        None \<Rightarrow> sst
      | Some position \<Rightarrow>
          (case exitAction position currentPrice of
             None \<Rightarrow> sst
           | Some action \<Rightarrow>
               let exitSide = (if pos_side position = ''long'' then ''sell'' else ''buy'');
                   st = snd sst;
                   r = executeTrade cfg (clock (length (tradeLog st))) s exitSide
                         (Some (pos_amount position)) ''market'' (Some currentPrice) st;
                   st' = snd r
               in (strat_clearPosition strategyInstance (fst sst),
                   st'\<lparr>currentPositions := (currentPositions st')(s := None)\<rparr>)))"

text \<open>
  The loop of \<open>runBacktest\<close>, lines 211 to 227: \<open>seen\<close> is \<open>backtestData.slice(0, i)\<close> and
  the second list holds the candles from index \<open>i\<close> on. The timestamp of an equity point is
  \<open>new Date(currentCandle.timestamp).toISOString()\<close>, kept as the epoch milliseconds.
\<close>

fun replay ::
  "config \<Rightarrow> (nat \<Rightarrow> int \<times> int) \<Rightarrow> 'st strategy \<Rightarrow> candle list \<Rightarrow> candle list
     \<Rightarrow> 'st \<times> bt_state \<Rightarrow> 'st \<times> bt_state" where
  "replay cfg clock strategyInstance seen [] sst = sst"
| "replay cfg clock strategyInstance seen (currentCandle # rest) sst =
     (let historicalSlice = seen @ [currentCandle];
          sst1 = monitorAndExitPositions cfg clock strategyInstance
                   (strat_symbol strategyInstance) (c_close currentCandle) sst;
          sst2 = exec_prog cfg clock
                   (strat_run strategyInstance (fst sst1) currentCandle historicalSlice)
                   (snd sst1);
          st3 = (snd sst2)\<lparr>equityCurve := equityCurve (snd sst2) @
                   [\<lparr> e_timestamp = c_timestamp currentCandle,
                      e_balance = currentBalance (snd sst2) \<rparr>]\<rparr>
      in replay cfg clock strategyInstance historicalSlice rest (fst sst2, st3))"

text \<open>
  \<open>runBacktest\<close>, lines 205 to 247, up to the end of the loop; the performance metrics are
  computed from the state returned here. With no candle, \<open>backtestData[0].timestamp\<close> raises a
  \<open>TypeError\<close>. The holdings, positions and open positions of the service are not reset.
\<close>

definition runBacktest ::
  "config \<Rightarrow> (nat \<Rightarrow> int \<times> int) \<Rightarrow> 'st strategy \<Rightarrow> candle list \<Rightarrow> 'st \<times> bt_state
     \<Rightarrow> js_error + ('st \<times> bt_state)" where
  "runBacktest cfg clock strategyInstance backtestData sst =
     (case backtestData of
        [] \<Rightarrow> Inl TypeError
      | first # rest \<Rightarrow>
          Inr (replay cfg clock strategyInstance [] backtestData
                 (fst sst, (snd sst)\<lparr>currentBalance := initialCapital, tradeLog := [],
                     equityCurve := [\<lparr> e_timestamp = c_timestamp first,
                                       e_balance = initialCapital \<rparr>]\<rparr>)))"

definition tradeLog_of :: "js_error + ('st \<times> bt_state) \<Rightarrow> trade list" where
  "tradeLog_of r = (case r of Inl e \<Rightarrow> [] | Inr sst \<Rightarrow> tradeLog (snd sst))"

definition equityCurve_of :: "js_error + ('st \<times> bt_state) \<Rightarrow> equity_point list" where
  "equityCurve_of r = (case r of Inl e \<Rightarrow> [] | Inr sst \<Rightarrow> equityCurve (snd sst))"

text \<open>
  A trade with the readings of the wall clock removed: the clock part of the id and
  \<open>datetime\<close>. The index in the log, the other part of the id, stays.
\<close>

definition erase :: "trade \<Rightarrow> trade" where
  "erase t = t\<lparr>t_id := (0, snd (t_id t)), t_datetime := 0\<rparr>"

definition erase_state :: "bt_state \<Rightarrow> bt_state" where
  "erase_state st = st\<lparr>tradeLog := map erase (tradeLog st)\<rparr>"

definition zero_clock :: "nat \<Rightarrow> int \<times> int" where
  "zero_clock n = (0, 0)"

text \<open>
  A run of the strategy is blind to the clock when no continuation distinguishes two orders
  that differ in the readings of the clock only.
\<close>

primrec blind :: "'st prog \<Rightarrow> bool" where
  "blind (Done x) = True"
| "blind (ExecuteTrade s side amount type price k) =
     ((\<forall>r r'. map_option erase r = map_option erase r' \<longrightarrow> k r = k r') \<and> (\<forall>r. blind (k r)))"
| "blind (ManagePosition s side entryPrice amount strategyRiskConfig p) = blind p"

text \<open>The ids of a log are its indices.\<close>

definition ids_sequential :: "trade list \<Rightarrow> bool" where
  "ids_sequential ts = (map (\<lambda>t. snd (t_id t)) ts = [0..<length ts])"

text \<open>
  A strategy for the examples: on every candle it buys one unit at the close and, when the
  order is filled, registers a long position with the default stop and target and counts the
  entry.
\<close>

definition entry_strategy :: "nat strategy" where
  "entry_strategy = \<lparr> strat_symbol = ''BTC/USD'',
     strat_run = (\<lambda>n currentCandle historicalSlice.
        ExecuteTrade ''BTC/USD'' ''buy'' (Some 1) ''market'' (Some (c_close currentCandle))
          (\<lambda>order. case order of
             None \<Rightarrow> Done n
           | Some t \<Rightarrow> ManagePosition ''BTC/USD'' ''long'' (t_price t) (t_amount t)
                        \<lparr> rc_stopLossPercent = None, rc_takeProfitPercent = None \<rparr>
                        (Done (Suc n)))),
     strat_clearPosition = (\<lambda>n. n) \<rparr>"

definition clock_a :: "nat \<Rightarrow> int \<times> int" where
  "clock_a n = (1000, 1000)"

definition clock_b :: "nat \<Rightarrow> int \<times> int" where
  "clock_b n = (2000, 2000)"

definition one_candle :: "candle list" where
  "one_candle = [\<lparr> c_timestamp = 1640995200000, c_open = 100, c_high = 100, c_low = 100,
     c_close = 100, c_volume = 1 \<rparr>]"

definition two_candles :: "candle list" where
  "two_candles = [\<lparr> c_timestamp = 1640995200000, c_open = 100, c_high = 100, c_low = 100,
     c_close = 100, c_volume = 1 \<rparr>,
    \<lparr> c_timestamp = 1641001200000, c_open = 100, c_high = 130, c_low = 100,
     c_close = 120, c_volume = 1 \<rparr>]"

section \<open>Performance metrics (\<open>utils/performanceMetrics.js\<close>)\<close>

text \<open>A result that may be the literal \<open>Infinity\<close>.\<close>

datatype js_number = Num real | Infinity

text \<open>The loop of lines 107 to 115: one return per pair of consecutive points.\<close>

fun step_returns :: "equity_point list \<Rightarrow> real list" where
  "step_returns (p # q # rest) =
     (if e_balance p \<noteq> 0 then (e_balance q - e_balance p) / e_balance p else 0)
       # step_returns (q # rest)"
| "step_returns rest = []"

text \<open>\<open>calculateSharpeRatio\<close>, lines 103 to 127; \<open>reduce((sum, x) => sum + x, 0)\<close> is the
  left fold.\<close>

definition calculateSharpeRatio :: "equity_point list \<Rightarrow> real \<Rightarrow> js_number" where
  "calculateSharpeRatio curve riskFreeRate =
     (if length curve < 2 then Num 0
      else
        let returns = step_returns curve
        in if length returns = 0 then Num 0
           else
             let meanReturn = foldl (\<lambda>sum r. sum + r) 0 returns / real (length returns);
                 excessReturns = map (\<lambda>r. r - riskFreeRate) returns;
                 stdDev = sqrt (foldl (\<lambda>sum x. sum + x) 0 (map (\<lambda>x. x * x) excessReturns)
                                / real (length excessReturns))
             in if stdDev = 0 then Infinity else Num (meanReturn / stdDev))"

text \<open>
  The Sharpe ratio in the words of the specification, for comparison: the mean of the excess
  returns over their population standard deviation, and for a deviation of 0 infinite when the
  mean is positive and 0 otherwise.
\<close>

definition mean :: "real list \<Rightarrow> real" where
  "mean xs = sum_list xs / real (length xs)"

definition sharpeRatio_spec :: "equity_point list \<Rightarrow> real \<Rightarrow> js_number" where
  "sharpeRatio_spec curve riskFreeRate =
     (let excess = map (\<lambda>r. r - riskFreeRate) (step_returns curve);
          m = mean excess;
          sd = sqrt (mean (map (\<lambda>x. (x - m) * (x - m)) excess))
      in if sd = 0 then (if 0 < m then Infinity else Num 0) else Num (m / sd))"

definition curve_of :: "real list \<Rightarrow> equity_point list" where
  "curve_of bs = map (\<lambda>b. \<lparr> e_timestamp = 0, e_balance = b \<rparr>) bs"

section \<open>Properties of the risk manager\<close>

lemma js_or_simps:
  "js_or None d = d"
  "js_or (Some 0) d = d"
  "v \<noteq> 0 \<Longrightarrow> js_or (Some v) d = v"
  by (simp_all add: js_or_def)

text \<open>
  Claim C5, as amended. \<open>calculateLotSize\<close> returns 0 whenever the balance is below the
  configured minimum. Otherwise, for a positive price, it returns
  \<open>min (balance * r) (balance * maxRiskPerTrade) / price\<close> floored at 0, where \<open>r\<close> is the
  supplied risk percentage when one is supplied and is not 0, and \<open>maxRiskPerTrade\<close> when the
  argument is omitted or is 0. In particular the lot size for price 50000, balance 10000
  and risk 0.02 is 0.004 when \<open>maxRiskPerTrade\<close> is 0.02 and the minimum balance is at most 10000.
\<close>

theorem calculateLotSize_contract:
  "(accountBalance < risk_minimumBalance cfg \<longrightarrow>
      calculateLotSize cfg symbol currentPrice accountBalance riskPercentage = 0)
   \<and> (\<not> accountBalance < risk_minimumBalance cfg \<and> 0 < currentPrice \<longrightarrow>
      calculateLotSize cfg symbol currentPrice accountBalance riskPercentage =
        max 0 (min (accountBalance * js_or riskPercentage (risk_maxRiskPerTrade cfg))
                   (accountBalance * risk_maxRiskPerTrade cfg) / currentPrice))
   \<and> (risk_maxRiskPerTrade cfg = 2 / 100 \<and> risk_minimumBalance cfg \<le> 10000 \<longrightarrow>
      calculateLotSize cfg symbol 50000 10000 (Some (2 / 100)) = 4 / 1000)"
proof (intro conjI impI)
  assume "accountBalance < risk_minimumBalance cfg"
  then show "calculateLotSize cfg symbol currentPrice accountBalance riskPercentage = 0"
    by (simp add: calculateLotSize_def Let_def)
next
  assume h: "\<not> accountBalance < risk_minimumBalance cfg \<and> 0 < currentPrice"
  have "min (a / currentPrice) (b / currentPrice) = min a b / currentPrice" for a b :: real
    using h by (simp add: min_def divide_le_cancel)
  with h show "calculateLotSize cfg symbol currentPrice accountBalance riskPercentage =
        max 0 (min (accountBalance * js_or riskPercentage (risk_maxRiskPerTrade cfg))
                   (accountBalance * risk_maxRiskPerTrade cfg) / currentPrice)"
    by (simp add: calculateLotSize_def Let_def)
next
  assume "risk_maxRiskPerTrade cfg = 2 / 100 \<and> risk_minimumBalance cfg \<le> 10000"
  then show "calculateLotSize cfg symbol 50000 10000 (Some (2 / 100)) = 4 / 1000"
    by (simp add: calculateLotSize_def Let_def js_or_def)
qed

theorem calculateLotSize_contract_witness:
  "calculateLotSize test_config ''BTC/USD'' 50000 50 None = 0
   \<and> calculateLotSize test_config ''BTC/USD'' 50000 10000 (Some (1 / 100)) = 2 / 1000
   \<and> calculateLotSize test_config ''BTC/USD'' 50000 10000 (Some (2 / 100)) = 4 / 1000"
  using calculateLotSize_contract [of 50 test_config "''BTC/USD''" 50000 None]
    calculateLotSize_contract [of 10000 test_config "''BTC/USD''" 50000 "Some (1 / 100)"]
  by (simp add: test_config_def js_or_def)

text \<open>
  The claim as the specification words it takes the supplied percentage whenever one is
  supplied. At a supplied percentage of 0 that formula gives lot size 0, and the code gives
  the lot size of the default percentage.
\<close>

theorem calculateLotSize_zero_risk_counterexample:
  "calculateLotSize test_config ''BTC/USD'' 50000 10000 (Some 0) = 4 / 1000
   \<and> max 0 (min (10000 * 0) (10000 * risk_maxRiskPerTrade test_config) / 50000) = (0::real)"
  by (simp add: calculateLotSize_def Let_def js_or_def test_config_def)

text \<open>
  Claim C6, at the input of the unit test \<open>should handle zero cooldown\<close>: the last trade is
  one second old, the cooldown passed is 0 and the configured cooldown is one hour. The test
  and the specification expect \<open>true\<close>; the code falls back to the configured hour and answers
  \<open>false\<close>.
\<close>

theorem validateCooldown_zero_uses_default:
  "validateCooldown test_config 1700000000000 (1700000000000 - 1000) (Some 0) = False
   \<and> (1700000000000 - (1700000000000 - 1000) \<ge> (0::int))"
  by (simp add: validateCooldown_def js_or_def test_config_def)

text \<open>
  Claim C10. For each of the four functions with an optional percentage or period, passing 0
  gives the result of omitting the argument, which is the result computed from the
  configured default.
\<close>

theorem zero_override_is_default:
  "calculateLotSize cfg symbol currentPrice accountBalance (Some 0)
     = calculateLotSize cfg symbol currentPrice accountBalance None
   \<and> calculateStopLoss cfg entryPrice side (Some 0) = calculateStopLoss cfg entryPrice side None
   \<and> calculateStopLoss cfg entryPrice side (Some 0)
       = (if side = ''buy'' then entryPrice * (1 - risk_stopLossPercentage cfg)
          else entryPrice * (1 + risk_stopLossPercentage cfg))
   \<and> calculateTakeProfit cfg entryPrice side (Some 0) = calculateTakeProfit cfg entryPrice side None
   \<and> calculateTakeProfit cfg entryPrice side (Some 0)
       = (if side = ''buy'' then entryPrice * (1 + risk_takeProfitPercentage cfg)
          else entryPrice * (1 - risk_takeProfitPercentage cfg))
   \<and> validateCooldown cfg now lastTradeTime (Some 0) = validateCooldown cfg now lastTradeTime None
   \<and> validateCooldown cfg now lastTradeTime (Some 0)
       = (now - lastTradeTime \<ge> trading_cooldownPeriod cfg)"
  by (simp add: calculateLotSize_def calculateStopLoss_def calculateTakeProfit_def
      validateCooldown_def js_or_def Let_def)

text \<open>
  Claim C8. When a tick satisfies both exit conditions of an open position, the exit check
  answers \<open>stop_loss\<close>: for a long position when the price is at or below the stop and at or
  above the target, for a short position (any side other than \<open>'long'\<close>) when it is at or above
  the stop and at or below the target.
\<close>

theorem exitAction_stop_loss_first:
  "(pos_side position = ''long'' \<and> currentPrice \<le> pos_stopLossPrice position
      \<and> currentPrice \<ge> pos_takeProfitPrice position
      \<longrightarrow> exitAction position currentPrice = Some stop_loss)
   \<and> (pos_side position \<noteq> ''long'' \<and> currentPrice \<ge> pos_stopLossPrice position
      \<and> currentPrice \<le> pos_takeProfitPrice position
      \<longrightarrow> exitAction position currentPrice = Some stop_loss)"
  by (simp add: exitAction_def)

theorem exitAction_stop_loss_first_witness:
  "exitAction \<lparr> pos_side = ''long'', pos_entryPrice = 100, pos_amount = 1,
       pos_stopLossPrice = 95, pos_takeProfitPrice = 90 \<rparr> 92 = Some stop_loss
   \<and> exitAction \<lparr> pos_side = ''short'', pos_entryPrice = 100, pos_amount = 1,
       pos_stopLossPrice = 105, pos_takeProfitPrice = 110 \<rparr> 107 = Some stop_loss"
  using exitAction_stop_loss_first [of "\<lparr> pos_side = ''long'', pos_entryPrice = 100, pos_amount = 1,
       pos_stopLossPrice = 95, pos_takeProfitPrice = 90 \<rparr>" 92]
    exitAction_stop_loss_first [of "\<lparr> pos_side = ''short'', pos_entryPrice = 100, pos_amount = 1,
       pos_stopLossPrice = 105, pos_takeProfitPrice = 110 \<rparr>" 107]
  by simp

section \<open>Properties of the simulated execution adapter\<close>

lemma qty_init_entry: "qty (init_entry m s) k = qty m k"
  by (simp add: init_entry_def qty_def)

text \<open>A purchase that passes the checks: one debit of the notional, the fee and the id.\<close>

lemma executeTrade_buy_ok:
  assumes "js_or price 0 \<noteq> 0"
    and "amt = js_or amount (calculateLotSize cfg s (js_or price 0) (currentBalance st) None)"
    and "0 < amt" and "\<not> currentBalance st < amt * js_or price 0"
  shows "\<exists>order st'. executeTrade cfg clock s ''buy'' amount type price st = (Some order, st')
     \<and> currentBalance st' = currentBalance st - amt * js_or price 0
     \<and> holdings st' = (holdings st)(s \<mapsto> qty (holdings st) s + amt)
     \<and> positions st' = (positions st)(s \<mapsto> qty (positions st) s + amt)
     \<and> tradeLog st' = tradeLog st @ [order]
     \<and> t_fee order = (amt * js_or price 0) * (1 / 1000)
     \<and> t_id order = (fst clock, length (tradeLog st))"
  using assms
  by (simp add: executeTrade_def trackPosition_def Let_def qty_init_entry init_entry_def qty_def)

text \<open>A sale that passes the checks: the notional is credited at line 80 and again at
  line 93.\<close>

lemma executeTrade_sell_ok:
  assumes "js_or price 0 \<noteq> 0"
    and "amt = js_or amount (calculateLotSize cfg s (js_or price 0) (currentBalance st) None)"
    and "0 < amt" and "\<not> qty (holdings st) s < amt" and "\<not> qty (positions st) s < amt"
  shows "\<exists>order st'. executeTrade cfg clock s ''sell'' amount type price st = (Some order, st')
     \<and> currentBalance st' = currentBalance st + 2 * (amt * js_or price 0)
     \<and> holdings st' = (holdings st)(s \<mapsto> qty (holdings st) s - amt)
     \<and> positions st' = (positions st)(s \<mapsto> qty (positions st) s - amt)
     \<and> tradeLog st' = tradeLog st @ [order]
     \<and> t_fee order = (amt * js_or price 0) * (1 / 1000)
     \<and> t_id order = (fst clock, length (tradeLog st))"
  using assms
  by (simp add: executeTrade_def trackPosition_def Let_def qty_init_entry init_entry_def qty_def)

text \<open>
  The two books of the service, \<open>holdings\<close> and \<open>positions\<close>, agree on every quantity when
  they do before the call; they do in a fresh service, where both are empty. In such states
  the check of line 89 never refuses a sale that the check of line 76 has let through.
\<close>

lemma executeTrade_books_agree:
  assumes "\<forall>k. qty (holdings st) k = qty (positions st) k"
  shows "\<forall>k. qty (holdings (snd (executeTrade cfg clock s side amount type price st))) k
            = qty (positions (snd (executeTrade cfg clock s side amount type price st))) k"
proof
  fix k
  have a: "qty (holdings st) s = qty (positions st) s" "qty (holdings st) k = qty (positions st) k"
    using assms by simp_all
  show "qty (holdings (snd (executeTrade cfg clock s side amount type price st))) k
            = qty (positions (snd (executeTrade cfg clock s side amount type price st))) k"
    using a
    by (simp add: executeTrade_def trackPosition_def Let_def init_entry_def qty_def
        split: option.splits)
qed

text \<open>
  Outside such states the check of line 89 comes after the ledger has been changed: with one
  unit held and no position, a sale of one unit at 100 returns \<open>null\<close> with the balance
  raised and the holding removed.
\<close>

lemma executeTrade_position_check_after_update:
  "fst (executeTrade test_config (1000, 1001) ''BTC/USD'' ''sell'' (Some 1) ''market'' (Some 100)
      (fresh_state\<lparr>holdings := [''BTC/USD'' \<mapsto> 1]\<rparr>)) = None
   \<and> currentBalance (snd (executeTrade test_config (1000, 1001) ''BTC/USD'' ''sell'' (Some 1)
      ''market'' (Some 100) (fresh_state\<lparr>holdings := [''BTC/USD'' \<mapsto> 1]\<rparr>))) = 10100
   \<and> qty (holdings (snd (executeTrade test_config (1000, 1001) ''BTC/USD'' ''sell'' (Some 1)
      ''market'' (Some 100) (fresh_state\<lparr>holdings := [''BTC/USD'' \<mapsto> 1]\<rparr>)))) ''BTC/USD'' = 0"
  by (simp add: executeTrade_def trackPosition_def Let_def js_or_def fresh_state_def
      initialCapital_def init_entry_def qty_def)

text \<open>
  Claim C1, as amended. When the price and the amount resolve (\<open>amt\<close> is the resolved amount,
  positive) and the check of the cash balance fails for a purchase, or the check of the
  holdings fails for a sale, \<open>executeTrade\<close> returns \<open>null\<close>; the cash balance, the trade log,
  the positions, the equity curve and the open positions are as before, and so is the quantity
  held of every symbol. The holdings map itself has changed in one way: the entry of the
  traded symbol, when it was missing, now exists with quantity 0 (lines 61 to 66 run before
  the checks).
\<close>

theorem executeTrade_rejected:
  assumes "js_or price 0 \<noteq> 0"
    and "amt = js_or amount (calculateLotSize cfg s (js_or price 0) (currentBalance st) None)"
    and "0 < amt"
    and "(side = ''buy'' \<and> currentBalance st < amt * js_or price 0)
         \<or> (side = ''sell'' \<and> qty (holdings st) s < amt)"
  shows "executeTrade cfg clock s side amount type price st
           = (None, st\<lparr>holdings := init_entry (holdings st) s\<rparr>)
         \<and> init_entry (holdings st) s = (holdings st)(s \<mapsto> qty (holdings st) s)
         \<and> (\<forall>k. qty (init_entry (holdings st) s) k = qty (holdings st) k)"
proof (intro conjI)
  show "executeTrade cfg clock s side amount type price st
          = (None, st\<lparr>holdings := init_entry (holdings st) s\<rparr>)"
    using assms by (auto simp add: executeTrade_def Let_def qty_init_entry)
  show "init_entry (holdings st) s = (holdings st)(s \<mapsto> qty (holdings st) s)"
    by (simp add: init_entry_def)
  show "\<forall>k. qty (init_entry (holdings st) s) k = qty (holdings st) k"
    by (simp add: qty_init_entry)
qed

theorem executeTrade_rejected_witness:
  "executeTrade test_config (1000, 1001) ''BTC/USD'' ''sell'' (Some 2) ''market'' (Some 100) after_buy
     = (None, after_buy\<lparr>holdings := init_entry (holdings after_buy) ''BTC/USD''\<rparr>)
   \<and> qty (holdings after_buy) ''BTC/USD'' = 1"
  using executeTrade_rejected [of "Some 100" 2 "Some 2" test_config "''BTC/USD''" after_buy
      "''sell''" "(1000, 1001)" "''market''"]
  by (simp add: after_buy_def executeTrade_def trackPosition_def Let_def js_or_def
      fresh_state_def initialCapital_def init_entry_def qty_def)

text \<open>
  The claim as the specification words it, that the holdings map is exactly as before: in a
  fresh run a purchase of one unit at 20000 with a balance of 10000 is refused, and the
  holdings map, which had no entry for the symbol, has one afterwards.
\<close>

theorem executeTrade_rejected_counterexample:
  "fst (executeTrade test_config (1000, 1001) ''BTC/USD'' ''buy'' (Some 1) ''market''
          (Some 20000) fresh_state) = None
   \<and> currentBalance fresh_state < 1 * 20000
   \<and> holdings fresh_state ''BTC/USD'' = None
   \<and> holdings (snd (executeTrade test_config (1000, 1001) ''BTC/USD'' ''buy'' (Some 1) ''market''
          (Some 20000) fresh_state)) ''BTC/USD'' = Some 0"
  by (simp add: executeTrade_def Let_def js_or_def fresh_state_def initialCapital_def
      init_entry_def qty_def)

text \<open>
  Claim C2, at a sale that follows a purchase. One unit is bought at 100 in a fresh run
  (balance 9900, one unit held), then sold at 100. The sale succeeds and the unit leaves the
  holdings, but the balance is 10100: the notional has been credited twice, where the claim
  says once (10000).
\<close>

theorem executeTrade_sell_credits_twice:
  "currentBalance after_buy = 9900 \<and> qty (holdings after_buy) ''BTC/USD'' = 1
   \<and> fst (executeTrade test_config (2000, 2001) ''BTC/USD'' ''sell'' (Some 1) ''market''
          (Some 100) after_buy) \<noteq> None
   \<and> currentBalance (snd (executeTrade test_config (2000, 2001) ''BTC/USD'' ''sell'' (Some 1)
          ''market'' (Some 100) after_buy)) = 10100
   \<and> qty (holdings (snd (executeTrade test_config (2000, 2001) ''BTC/USD'' ''sell'' (Some 1)
          ''market'' (Some 100) after_buy))) ''BTC/USD'' = 0"
  by (simp add: after_buy_def executeTrade_def trackPosition_def Let_def js_or_def
      fresh_state_def initialCapital_def init_entry_def qty_def)

section \<open>Non-negative balances\<close>

lemma nonneg_init_entry: "nonneg m \<Longrightarrow> nonneg (init_entry m s)"
  by (auto simp add: nonneg_def init_entry_def qty_def split: option.splits)

lemma nonneg_qty: "nonneg m \<Longrightarrow> 0 \<le> qty m s"
  by (auto simp add: nonneg_def qty_def split: option.splits)

lemma nonneg_upd: "nonneg m \<Longrightarrow> 0 \<le> v \<Longrightarrow> nonneg (m(s \<mapsto> v))"
  by (auto simp add: nonneg_def)

lemma trackPosition_keeps:
  assumes "0 \<le> currentBalance st" "0 \<le> amt * p"
  shows "0 \<le> currentBalance (snd (trackPosition clock s side type amt p st))
     \<and> holdings (snd (trackPosition clock s side type amt p st)) = holdings st"
  using assms by (simp add: trackPosition_def Let_def)

lemma executeTrade_keeps_nonneg:
  assumes "0 \<le> currentBalance st" "nonneg (holdings st)" "0 \<le> js_or price 0"
  shows "0 \<le> currentBalance (snd (executeTrade cfg clock s side amount type price st))
     \<and> nonneg (holdings (snd (executeTrade cfg clock s side amount type price st)))"
proof -
  let ?p = "js_or price 0"
  let ?a = "js_or amount (calculateLotSize cfg s ?p (currentBalance st) None)"
  show ?thesis
  proof (cases "?p = 0 \<or> ?a \<le> 0")
    case True
    then show ?thesis using assms by (auto simp add: executeTrade_def Let_def)
  next
    case False
    then have pos: "0 < ?a" "0 \<le> ?a * ?p" using assms(3) by auto
    have q: "0 \<le> qty (holdings st) s" using assms(2) by (rule nonneg_qty)
    have i: "nonneg (init_entry (holdings st) s)" using assms(2) by (rule nonneg_init_entry)
    show ?thesis
      using False assms(1) pos q i trackPosition_keeps
      by (auto simp add: executeTrade_def Let_def qty_init_entry nonneg_upd)
  qed
qed

lemma bt_calls_keep_nonneg:
  "0 \<le> currentBalance st \<Longrightarrow> nonneg (holdings st) \<Longrightarrow> \<forall>c\<in>set calls. 0 \<le> bt_call_price c
   \<Longrightarrow> 0 \<le> currentBalance (bt_calls cfg calls st) \<and> nonneg (holdings (bt_calls cfg calls st))"
proof (induction calls arbitrary: st)
  case Nil
  then show ?case by simp
next
  case (Cons c cs)
  obtain clock s side amount type price where c: "c = BtCall clock s side amount type price"
    by (cases c)
  from Cons.prems have "0 \<le> js_or price 0" by (simp add: c)
  with Cons.prems(1,2)
  have "0 \<le> currentBalance (bt_apply cfg c st) \<and> nonneg (holdings (bt_apply cfg c st))"
    unfolding c bt_apply.simps by (rule executeTrade_keeps_nonneg)
  with Cons.IH [of "bt_apply cfg c st"] Cons.prems(3) show ?case by simp
qed

lemma nonneg_buy:
  assumes "nonneg b" "0 \<le> a" "\<not> js_lt (b q) c"
  shows "nonneg (js_add (js_add b q (- c)) ba a)"
  unfolding nonneg_def
proof (intro allI impI)
  fix k v assume h: "js_add (js_add b q (- c)) ba a k = Some v"
  from assms(1) have nb: "\<And>k v. b k = Some v \<Longrightarrow> 0 \<le> v" by (simp add: nonneg_def)
  from assms(3) have qc: "\<And>x. b q = Some x \<Longrightarrow> c \<le> x" by (simp add: js_lt_def)
  show "0 \<le> v"
    using h assms(2) nb qc
    by (fastforce simp add: js_add_def split: if_splits)
qed

lemma nonneg_sell:
  assumes "nonneg b" "0 \<le> c" "\<not> js_lt (b ba) a"
  shows "nonneg (js_add (js_add b q c) ba (- a))"
  unfolding nonneg_def
proof (intro allI impI)
  fix k v assume h: "js_add (js_add b q c) ba (- a) k = Some v"
  from assms(1) have nb: "\<And>k v. b k = Some v \<Longrightarrow> 0 \<le> v" by (simp add: nonneg_def)
  from assms(3) have qc: "\<And>x. b ba = Some x \<Longrightarrow> a \<le> x" by (simp add: js_lt_def)
  show "0 \<le> v"
    using h assms(2) nb qc
    by (fastforce simp add: js_add_def split: if_splits)
qed

lemma paper_executeTrade_keeps_nonneg:
  assumes "nonneg (currentBalances st)" "0 \<le> amount" "0 \<le> ticker_last" "0 \<le> js_or price 0"
    and "paper_executeTrade ticker_last timestamp symbol side amount type price st = Inr (r, st')"
  shows "nonneg (currentBalances st')"
proof -
  let ?ep = "if type = ''market'' then Some ticker_last else price"
  have c: "0 \<le> amount * js_or ?ep 0"
    using assms(2,3,4) by (simp add: js_or_def split: option.splits)
  show ?thesis
  proof (cases "side = ''buy''")
    case True
    show ?thesis
      using assms(1,2,5) True nonneg_buy [of "currentBalances st" amount]
      by (auto simp add: paper_executeTrade_def Let_def split: if_splits)
  next
    case False
    show ?thesis
      using assms(1,2,5) c False
        nonneg_sell [of "currentBalances st" "amount * js_or ?ep 0" "baseAsset_of symbol" amount]
      by (auto simp add: paper_executeTrade_def Let_def split: if_splits)
  qed
qed

lemma paper_calls_keep_nonneg:
  "nonneg (currentBalances st) \<Longrightarrow> \<forall>c\<in>set calls. paper_call_ok c
   \<Longrightarrow> nonneg (currentBalances (paper_calls calls st))"
proof (induction calls arbitrary: st)
  case Nil
  then show ?case by simp
next
  case (Cons c cs)
  obtain ticker_last timestamp symbol side amount type price
    where c: "c = PaperCall ticker_last timestamp symbol side amount type price"
    by (cases c)
  from Cons.prems have ok: "0 \<le> amount" "0 \<le> ticker_last" "0 \<le> js_or price 0"
    by (simp_all add: c)
  have "nonneg (currentBalances (paper_apply c st))"
  proof (cases "paper_executeTrade ticker_last timestamp symbol side amount type price st")
    case (Inl e)
    then show ?thesis using Cons.prems(1) by (simp add: c)
  next
    case (Inr r)
    then have "paper_executeTrade ticker_last timestamp symbol side amount type price st
                 = Inr (fst r, snd r)"
      by simp
    from paper_executeTrade_keeps_nonneg [OF Cons.prems(1) ok this] Inr
    show ?thesis by (simp add: c)
  qed
  with Cons.IH [of "paper_apply c st"] Cons.prems(2) show ?case by simp
qed

text \<open>
  Claim C9, as amended. Starting from a non-negative cash balance and non-negative holdings,
  every sequence of \<open>executeTrade\<close> calls of the backtester whose prices are not negative
  leaves the cash balance and every holding non-negative (amounts need no condition: the
  adapter refuses amounts that are not positive). Starting from non-negative balances, every
  sequence of \<open>executeTrade\<close> calls of the paper trader whose amounts, ticker prices and
  limit prices are not negative leaves every balance that carries a number non-negative.
\<close>

theorem ledger_stays_nonneg:
  assumes "0 \<le> currentBalance st" and "nonneg (holdings st)"
    and "\<forall>c\<in>set calls. 0 \<le> bt_call_price c"
    and "nonneg (currentBalances pst)"
    and "\<forall>c\<in>set pcalls. paper_call_ok c"
  shows "0 \<le> currentBalance (bt_calls cfg calls st)
     \<and> nonneg (holdings (bt_calls cfg calls st))
     \<and> nonneg (currentBalances (paper_calls pcalls pst))"
  using bt_calls_keep_nonneg [OF assms(1,2,3)] paper_calls_keep_nonneg [OF assms(4,5)]
  by simp

theorem ledger_stays_nonneg_witness:
  "0 \<le> currentBalance (bt_calls test_config
          [BtCall (1000, 1001) ''BTC/USD'' ''buy'' (Some 1) ''market'' (Some 100),
           BtCall (2000, 2001) ''BTC/USD'' ''sell'' (Some 1) ''market'' (Some 100)] fresh_state)
   \<and> nonneg (holdings (bt_calls test_config
          [BtCall (1000, 1001) ''BTC/USD'' ''buy'' (Some 1) ''market'' (Some 100),
           BtCall (2000, 2001) ''BTC/USD'' ''sell'' (Some 1) ''market'' (Some 100)] fresh_state))
   \<and> nonneg (currentBalances (paper_calls
          [PaperCall 100 1000 ''BTC/USD'' ''buy'' 1 ''market'' None,
           PaperCall 100 2000 ''BTC/USD'' ''sell'' 1 ''limit'' (Some 110)] initializePaperTrader))"
proof -
  have h1: "0 \<le> currentBalance fresh_state"
    by (simp add: fresh_state_def initialCapital_def)
  have h2: "nonneg (holdings fresh_state)"
    by (simp add: nonneg_def fresh_state_def)
  have h3: "\<forall>c\<in>set [BtCall (1000, 1001) ''BTC/USD'' ''buy'' (Some 1) ''market'' (Some 100),
        BtCall (2000, 2001) ''BTC/USD'' ''sell'' (Some 1) ''market'' (Some 100)].
      0 \<le> bt_call_price c"
    by (simp add: js_or_def)
  have h4: "nonneg (currentBalances initializePaperTrader)"
    by (simp add: nonneg_def initializePaperTrader_def initialBalance_def)
  have h5: "\<forall>c\<in>set [PaperCall 100 1000 ''BTC/USD'' ''buy'' 1 ''market'' None,
        PaperCall 100 2000 ''BTC/USD'' ''sell'' 1 ''limit'' (Some 110)]. paper_call_ok c"
    by (simp add: js_or_def)
  show ?thesis
    by (rule ledger_stays_nonneg [OF h1 h2 h3 h4 h5])
qed

text \<open>
  The claim as the specification words it, for every sequence of calls. The paper trader has
  no check of the amount: a purchase of \<open>-1\<close> units at a limit price of 100 from the initial
  balances leaves a holding of \<open>-1\<close>. Neither adapter checks the sign of the price: in the
  backtester a purchase of one unit at 100 followed by its sale at \<open>-6000\<close> leaves a cash
  balance of \<open>-2100\<close>.
\<close>

theorem ledger_negative_amount_counterexample:
  "nonneg (currentBalances initializePaperTrader)
   \<and> currentBalances (paper_calls [PaperCall 0 1000 ''BTC/USD'' ''buy'' (- 1) ''limit'' (Some 100)]
        initializePaperTrader) ''BTC'' = Some (- 1)
   \<and> \<not> nonneg (currentBalances (paper_calls
        [PaperCall 0 1000 ''BTC/USD'' ''buy'' (- 1) ''limit'' (Some 100)] initializePaperTrader))
   \<and> 0 \<le> currentBalance fresh_state \<and> nonneg (holdings fresh_state)
   \<and> currentBalance (bt_calls test_config
        [BtCall (1000, 1001) ''BTC/USD'' ''buy'' (Some 1) ''market'' (Some 100),
         BtCall (2000, 2001) ''BTC/USD'' ''sell'' (Some 1) ''market'' (Some (- 6000))]
        fresh_state) = - 2100"
proof -
  have a: "currentBalances (paper_calls
        [PaperCall 0 1000 ''BTC/USD'' ''buy'' (- 1) ''limit'' (Some 100)]
        initializePaperTrader) ''BTC'' = Some (- 1)"
    by (simp add: paper_executeTrade_def Let_def initializePaperTrader_def initialBalance_def
        js_or_def js_lt_def js_add_def baseAsset_of_def quoteAsset_of_def)
  have b: "nonneg (currentBalances initializePaperTrader)"
    by (simp add: nonneg_def initializePaperTrader_def initialBalance_def)
  from a have c: "\<not> nonneg (currentBalances (paper_calls
        [PaperCall 0 1000 ''BTC/USD'' ''buy'' (- 1) ''limit'' (Some 100)] initializePaperTrader))"
    unfolding nonneg_def by force
  have d: "0 \<le> currentBalance fresh_state \<and> nonneg (holdings fresh_state)
   \<and> currentBalance (bt_calls test_config
        [BtCall (1000, 1001) ''BTC/USD'' ''buy'' (Some 1) ''market'' (Some 100),
         BtCall (2000, 2001) ''BTC/USD'' ''sell'' (Some 1) ''market'' (Some (- 6000))]
        fresh_state) = - 2100"
    by (simp add: executeTrade_def trackPosition_def Let_def js_or_def fresh_state_def
        initialCapital_def init_entry_def qty_def nonneg_def)
  from a b c d show ?thesis by simp
qed

section \<open>Properties of the replay loop\<close>

lemma trackPosition_curve:
  "equityCurve (snd (trackPosition clock s side type a p st)) = equityCurve st"
  by (simp add: trackPosition_def Let_def)

lemma executeTrade_curve:
  "equityCurve (snd (executeTrade cfg clock s side amount type price st)) = equityCurve st"
  by (simp add: executeTrade_def Let_def trackPosition_curve)

lemma managePosition_curve: "equityCurve (managePosition cfg s side e a rc st) = equityCurve st"
  by (simp add: managePosition_def Let_def)

lemma exec_prog_curve: "equityCurve (snd (exec_prog cfg clock p st)) = equityCurve st"
  by (induction p arbitrary: st) (simp_all add: Let_def executeTrade_curve managePosition_curve)

lemma monitor_curve:
  "equityCurve (snd (monitorAndExitPositions cfg clock strat s price sst)) = equityCurve (snd sst)"
  by (simp add: monitorAndExitPositions_def Let_def executeTrade_curve split: option.splits)

text \<open>The loop appends one point per candle, carrying the candle's timestamp.\<close>

lemma replay_curve:
  "\<exists>pts. equityCurve (snd (replay cfg clock strat seen cs sst)) = equityCurve (snd sst) @ pts
     \<and> map e_timestamp pts = map c_timestamp cs"
proof (induction cs arbitrary: seen sst)
  case Nil
  then show ?case by simp
next
  case (Cons c cs)
  let ?m = "monitorAndExitPositions cfg clock strat (strat_symbol strat) (c_close c) sst"
  let ?e = "exec_prog cfg clock (strat_run strat (fst ?m) c (seen @ [c])) (snd ?m)"
  let ?pt = "\<lparr> e_timestamp = c_timestamp c, e_balance = currentBalance (snd ?e) \<rparr>"
  let ?st3 = "(snd ?e)\<lparr>equityCurve := equityCurve (snd ?e) @ [?pt]\<rparr>"
  have step: "replay cfg clock strat seen (c # cs) sst
                = replay cfg clock strat (seen @ [c]) cs (fst ?e, ?st3)"
    by (simp add: Let_def)
  have before: "equityCurve ?st3 = equityCurve (snd sst) @ [?pt]"
    by (simp add: exec_prog_curve monitor_curve)
  from Cons.IH [of "seen @ [c]" "(fst ?e, ?st3)"]
  obtain pts where pts: "equityCurve (snd (replay cfg clock strat (seen @ [c]) cs (fst ?e, ?st3)))
      = equityCurve ?st3 @ pts" "map e_timestamp pts = map c_timestamp cs"
    by auto
  have "equityCurve (snd (replay cfg clock strat seen (c # cs) sst))
          = equityCurve (snd sst) @ (?pt # pts)"
    unfolding step pts(1) before by simp
  moreover have "map e_timestamp (?pt # pts) = map c_timestamp (c # cs)"
    using pts(2) by simp
  ultimately show ?case by blast
qed

lemma runBacktest_curve:
  assumes "backtestData = first # rest"
  shows "\<exists>r pts. runBacktest cfg clock strat backtestData sst = Inr r
     \<and> equityCurve (snd r)
         = \<lparr> e_timestamp = c_timestamp first, e_balance = initialCapital \<rparr> # pts
     \<and> map e_timestamp pts = map c_timestamp backtestData"
proof -
  let ?st0 = "(snd sst)\<lparr>currentBalance := initialCapital, tradeLog := [],
                equityCurve := [\<lparr> e_timestamp = c_timestamp first,
                                  e_balance = initialCapital \<rparr>]\<rparr>"
  let ?r = "replay cfg clock strat [] backtestData (fst sst, ?st0)"
  have r: "runBacktest cfg clock strat backtestData sst = Inr ?r"
    using assms by (simp add: runBacktest_def)
  from replay_curve [of cfg clock strat "[]" backtestData "(fst sst, ?st0)"]
  obtain pts where "equityCurve (snd ?r) = equityCurve ?st0 @ pts"
    "map e_timestamp pts = map c_timestamp backtestData"
    by auto
  then have "equityCurve (snd ?r)
      = \<lparr> e_timestamp = c_timestamp first, e_balance = initialCapital \<rparr> # pts
     \<and> map e_timestamp pts = map c_timestamp backtestData"
    by simp
  with r show ?thesis by blast
qed

text \<open>
  Claim C4, as amended. For every non-empty candle sequence of length n, \<open>runBacktest\<close>
  returns; its equity curve starts with a seed point that carries the first candle's
  timestamp and the initial capital, followed by exactly one point per candle, in candle
  order (the i-th of them carries the i-th candle's timestamp); the finished curve has
  length n + 1.
\<close>

theorem runBacktest_equity_curve:
  assumes "backtestData = first # rest"
  shows "\<exists>r pts. runBacktest cfg clock strat backtestData sst = Inr r
     \<and> equityCurve (snd r)
         = \<lparr> e_timestamp = c_timestamp first, e_balance = initialCapital \<rparr> # pts
     \<and> map e_timestamp pts = map c_timestamp backtestData
     \<and> length pts = length backtestData
     \<and> length (equityCurve (snd r)) = length backtestData + 1"
proof -
  from runBacktest_curve [OF assms, of cfg clock strat sst]
  obtain r pts where h: "runBacktest cfg clock strat backtestData sst = Inr r"
    "equityCurve (snd r) = \<lparr> e_timestamp = c_timestamp first, e_balance = initialCapital \<rparr> # pts"
    "map e_timestamp pts = map c_timestamp backtestData"
    by blast
  from h(3) have "length (map e_timestamp pts) = length (map c_timestamp backtestData)"
    by simp
  then have l: "length pts = length backtestData" by simp
  with h(2) have "length (equityCurve (snd r)) = length backtestData + 1" by simp
  with h l show ?thesis by blast
qed

theorem runBacktest_equity_curve_witness:
  "\<exists>r pts. runBacktest test_config clock_a entry_strategy two_candles (0, fresh_state) = Inr r
     \<and> equityCurve (snd r) = \<lparr> e_timestamp = 1640995200000, e_balance = initialCapital \<rparr> # pts
     \<and> map e_timestamp pts = [1640995200000, 1641001200000]
     \<and> length pts = 2
     \<and> length (equityCurve (snd r)) = 3"
proof -
  have h: "two_candles = \<lparr> c_timestamp = 1640995200000, c_open = 100, c_high = 100, c_low = 100,
     c_close = 100, c_volume = 1 \<rparr> # [\<lparr> c_timestamp = 1641001200000, c_open = 100, c_high = 130,
     c_low = 100, c_close = 120, c_volume = 1 \<rparr>]"
    by (simp add: two_candles_def)
  have l: "length two_candles = 2" "map c_timestamp two_candles = [1640995200000, 1641001200000]"
    by (simp_all add: two_candles_def)
  from runBacktest_equity_curve [OF h, of test_config clock_a entry_strategy "(0, fresh_state)"]
  show ?thesis unfolding l by simp
qed

text \<open>
  The claim as the specification words it, a curve as long as the candle sequence: for one
  candle the finished curve has two points.
\<close>

theorem runBacktest_equity_curve_counterexample:
  "length one_candle = 1
   \<and> length (equityCurve_of
        (runBacktest test_config clock_a entry_strategy one_candle (0, fresh_state))) = 2"
proof -
  have h: "one_candle = \<lparr> c_timestamp = 1640995200000, c_open = 100, c_high = 100, c_low = 100,
     c_close = 100, c_volume = 1 \<rparr> # []"
    by (simp add: one_candle_def)
  from runBacktest_curve [OF h, of test_config clock_a entry_strategy "(0, fresh_state)"]
  obtain r pts where r: "runBacktest test_config clock_a entry_strategy one_candle (0, fresh_state) = Inr r"
    "equityCurve (snd r) = \<lparr> e_timestamp = c_timestamp \<lparr> c_timestamp = 1640995200000, c_open = 100, c_high = 100, c_low = 100,
     c_close = 100, c_volume = 1 \<rparr>, e_balance = initialCapital \<rparr> # pts"
    "map e_timestamp pts = map c_timestamp one_candle"
    by blast
  from r(3) have "length (map e_timestamp pts) = length (map c_timestamp one_candle)" by simp
  then have "length pts = 1" by (simp add: one_candle_def)
  with r(1,2) show ?thesis by (simp add: equityCurve_of_def one_candle_def)
qed

section \<open>Determinism of the replay up to the wall clock\<close>

lemma erase_idem: "erase (erase t) = erase t"
  by (simp add: erase_def)

lemma erase_opt_idem: "map_option erase (map_option erase r) = map_option erase r"
  by (cases r) (simp_all add: erase_idem)

lemma erase_fields:
  "t_price (erase t) = t_price t" "t_amount (erase t) = t_amount t"
  by (simp_all add: erase_def)

lemma erase_eq_fields:
  assumes "erase t = erase t'"
  shows "t_price t = t_price t' \<and> t_amount t = t_amount t'"
proof -
  have "t_price (erase t) = t_price (erase t')" "t_amount (erase t) = t_amount (erase t')"
    using assms by simp_all
  then show ?thesis by (simp add: erase_fields)
qed

lemma erase_state_fields:
  "currentBalance (erase_state st) = currentBalance st"
  "holdings (erase_state st) = holdings st"
  "positions (erase_state st) = positions st"
  "equityCurve (erase_state st) = equityCurve st"
  "currentPositions (erase_state st) = currentPositions st"
  "tradeLog (erase_state st) = map erase (tradeLog st)"
  by (simp_all add: erase_state_def)

lemma erase_state_upd:
  "erase_state (st\<lparr>holdings := h\<rparr>) = (erase_state st)\<lparr>holdings := h\<rparr>"
  "erase_state (st\<lparr>currentBalance := b, holdings := h\<rparr>)
     = (erase_state st)\<lparr>currentBalance := b, holdings := h\<rparr>"
  "erase_state (st\<lparr>currentPositions := cp\<rparr>) = (erase_state st)\<lparr>currentPositions := cp\<rparr>"
  "erase_state (st\<lparr>equityCurve := ec\<rparr>) = (erase_state st)\<lparr>equityCurve := ec\<rparr>"
  by (simp_all add: erase_state_def)

text \<open>
  Removing the clock readings from the result of a call gives the result of the same call, at
  clock reading 0, on the state with the clock readings removed.
\<close>

lemma trackPosition_erase:
  "trackPosition (0, 0) s side type a p (erase_state st)
     = (map_option erase (fst (trackPosition clock s side type a p st)),
        erase_state (snd (trackPosition clock s side type a p st)))"
  by (simp add: trackPosition_def Let_def erase_state_def erase_def)

lemma executeTrade_erase:
  "executeTrade cfg (0, 0) s side amount type price (erase_state st)
     = (map_option erase (fst (executeTrade cfg clock s side amount type price st)),
        erase_state (snd (executeTrade cfg clock s side amount type price st)))"
  by (simp add: executeTrade_def Let_def erase_state_fields
      trackPosition_erase [of _ _ _ _ _ _ clock] erase_state_upd [symmetric])

lemma managePosition_erase:
  "managePosition cfg s side e a rc (erase_state st)
     = erase_state (managePosition cfg s side e a rc st)"
  by (simp add: managePosition_def Let_def erase_state_def)

lemma exec_prog_erase:
  "blind p \<Longrightarrow> exec_prog cfg zero_clock p (erase_state st)
     = (fst (exec_prog cfg clock p st), erase_state (snd (exec_prog cfg clock p st)))"
proof (induction p arbitrary: st)
  case (Done x)
  then show ?case by simp
next
  case (ExecuteTrade s side amount type price k)
  let ?r = "executeTrade cfg (clock (length (tradeLog st))) s side amount type price st"
  have e: "executeTrade cfg (zero_clock (length (tradeLog (erase_state st)))) s side amount type
             price (erase_state st) = (map_option erase (fst ?r), erase_state (snd ?r))"
    by (simp add: zero_clock_def
        executeTrade_erase [of _ _ _ _ _ _ _ "clock (length (tradeLog st))"])
  have q: "map_option erase (map_option erase (fst ?r)) = map_option erase (fst ?r)
             \<longrightarrow> k (map_option erase (fst ?r)) = k (fst ?r)"
    using ExecuteTrade.prems unfolding blind.simps by blast
  have same: "k (map_option erase (fst ?r)) = k (fst ?r)"
    using q erase_opt_idem by blast
  have b: "blind (k (fst ?r))"
    using ExecuteTrade.prems unfolding blind.simps by blast
  have "exec_prog cfg zero_clock (k (fst ?r)) (erase_state (snd ?r))
          = (fst (exec_prog cfg clock (k (fst ?r)) (snd ?r)),
             erase_state (snd (exec_prog cfg clock (k (fst ?r)) (snd ?r))))"
    by (rule ExecuteTrade.IH [OF rangeI b])
  then show ?case
    by (simp add: Let_def e same)
next
  case (ManagePosition s side entryPrice amount rc p)
  then show ?case by (simp add: managePosition_erase)
qed

lemma monitor_erase:
  "monitorAndExitPositions cfg zero_clock strat s price (x, erase_state st)
     = (fst (monitorAndExitPositions cfg clock strat s price (x, st)),
        erase_state (snd (monitorAndExitPositions cfg clock strat s price (x, st))))"
  by (simp add: monitorAndExitPositions_def Let_def erase_state_fields zero_clock_def
      executeTrade_erase [of _ _ _ _ _ _ _ "clock (length (tradeLog st))"] erase_state_upd
      split: option.splits)

lemma replay_erase:
  assumes "\<forall>x c h. blind (strat_run strat x c h)"
  shows "replay cfg zero_clock strat seen cs (x, erase_state st)
     = (fst (replay cfg clock strat seen cs (x, st)),
        erase_state (snd (replay cfg clock strat seen cs (x, st))))"
proof (induction cs arbitrary: seen x st)
  case Nil
  then show ?case by simp
next
  case (Cons c cs)
  let ?m = "monitorAndExitPositions cfg clock strat (strat_symbol strat) (c_close c) (x, st)"
  let ?p = "strat_run strat (fst ?m) c (seen @ [c])"
  let ?e = "exec_prog cfg clock ?p (snd ?m)"
  let ?st3 = "(snd ?e)\<lparr>equityCurve := equityCurve (snd ?e) @
                   [\<lparr> e_timestamp = c_timestamp c, e_balance = currentBalance (snd ?e) \<rparr>]\<rparr>"
  have m: "monitorAndExitPositions cfg zero_clock strat (strat_symbol strat) (c_close c)
             (x, erase_state st) = (fst ?m, erase_state (snd ?m))"
    by (rule monitor_erase)
  have b: "blind ?p" using assms by simp
  have e: "exec_prog cfg zero_clock ?p (erase_state (snd ?m)) = (fst ?e, erase_state (snd ?e))"
    by (rule exec_prog_erase [OF b])
  have st3: "(erase_state (snd ?e))\<lparr>equityCurve := equityCurve (erase_state (snd ?e)) @
                   [\<lparr> e_timestamp = c_timestamp c,
                      e_balance = currentBalance (erase_state (snd ?e)) \<rparr>]\<rparr>
               = erase_state ?st3"
    by (simp add: erase_state_def)
  show ?case
    using Cons.IH [of "seen @ [c]" "fst ?e" ?st3]
    by (simp add: Let_def m e st3)
qed

lemma runBacktest_empty: "runBacktest cfg clock strat [] sst = Inl TypeError"
  by (simp add: runBacktest_def)

lemma runBacktest_erase:
  assumes "\<forall>x c h. blind (strat_run strat x c h)" and "backtestData \<noteq> []"
  shows "\<exists>r1 r2. runBacktest cfg clock1 strat backtestData (x, st) = Inr r1
     \<and> runBacktest cfg clock2 strat backtestData (x, st) = Inr r2
     \<and> fst r1 = fst r2 \<and> erase_state (snd r1) = erase_state (snd r2)"
proof -
  obtain first rest where d: "backtestData = first # rest"
    using assms(2) by (cases backtestData) auto
  let ?st0 = "st\<lparr>currentBalance := initialCapital, tradeLog := [],
                equityCurve := [\<lparr> e_timestamp = c_timestamp first,
                                  e_balance = initialCapital \<rparr>]\<rparr>"
  let ?r = "\<lambda>clock. replay cfg clock strat [] backtestData (x, ?st0)"
  have run: "runBacktest cfg clock strat backtestData (x, st) = Inr (?r clock)" for clock
    by (simp add: runBacktest_def d)
  have z: "replay cfg zero_clock strat [] backtestData (x, erase_state ?st0)
             = (fst (?r clock), erase_state (snd (?r clock)))" for clock
    by (rule replay_erase [OF assms(1)])
  from z [of clock1] z [of clock2]
  have "fst (?r clock1) = fst (?r clock2)
          \<and> erase_state (snd (?r clock1)) = erase_state (snd (?r clock2))"
    by simp
  with run [of clock1] run [of clock2] show ?thesis by blast
qed

lemma entry_strategy_blind: "\<forall>x c h. blind (strat_run entry_strategy x c h)"
proof (intro allI)
  fix x :: nat and c :: candle and h :: "candle list"
  let ?k = "\<lambda>order. case order of
             None \<Rightarrow> Done x
           | Some t \<Rightarrow> ManagePosition ''BTC/USD'' ''long'' (t_price t) (t_amount t)
                        \<lparr> rc_stopLossPercent = None, rc_takeProfitPercent = None \<rparr>
                        (Done (Suc x))"
  have same: "?k r = ?k r'" if e: "map_option erase r = map_option erase r'" for r r'
  proof (cases r)
    case None
    with e have "r' = None" by simp
    with None show ?thesis by simp
  next
    case (Some t)
    with e obtain t' where r': "r' = Some t'" and et: "erase t = erase t'"
      by (cases r') simp_all
    from et have "t_price t = t_price t' \<and> t_amount t = t_amount t'"
      by (rule erase_eq_fields)
    with Some r' show ?thesis by simp
  qed
  have b: "blind (?k r)" for r :: "trade option" by (cases r) simp_all
  have run: "strat_run entry_strategy x c h
          = ExecuteTrade ''BTC/USD'' ''buy'' (Some 1) ''market'' (Some (c_close c)) ?k"
    by (simp add: entry_strategy_def)
  have "blind (ExecuteTrade ''BTC/USD'' ''buy'' (Some 1) ''market'' (Some (c_close c)) ?k)"
    unfolding blind.simps
  proof (intro conjI allI impI)
    fix r r' :: "trade option"
    assume "map_option erase r = map_option erase r'"
    then show "?k r = ?k r'" by (rule same)
  next
    fix r :: "trade option"
    show "blind (?k r)" by (rule b)
  qed
  then show "blind (strat_run entry_strategy x c h)"
    by (simp only: run)
qed

text \<open>
  Claim C3, as amended. Fix the candle sequence, the configuration, the state of the service
  before the run and a strategy that is blind to the clock (its decisions are a function of
  its state, the candles and the orders it receives, without the clock part of their id and
  their \<open>datetime\<close>). Then two executions of the replay under any two wall clocks both fail
  on an empty sequence, and otherwise both return, with identical equity curves, identical
  final balance and holdings, identical strategy state, and trade logs that are identical
  once the clock part of each id and the \<open>datetime\<close> of each trade are removed. Those two
  values are readings of the wall clock and are not part of the statement.
\<close>

theorem runBacktest_deterministic_up_to_clock:
  assumes "\<forall>x c h. blind (strat_run strat x c h)"
  shows "(backtestData = [] \<longrightarrow>
            runBacktest cfg clock1 strat backtestData (x, st) = Inl TypeError
          \<and> runBacktest cfg clock2 strat backtestData (x, st) = Inl TypeError)
     \<and> (backtestData \<noteq> [] \<longrightarrow>
          (\<exists>r1 r2. runBacktest cfg clock1 strat backtestData (x, st) = Inr r1
             \<and> runBacktest cfg clock2 strat backtestData (x, st) = Inr r2
             \<and> equityCurve (snd r1) = equityCurve (snd r2)
             \<and> map erase (tradeLog (snd r1)) = map erase (tradeLog (snd r2))
             \<and> currentBalance (snd r1) = currentBalance (snd r2)
             \<and> holdings (snd r1) = holdings (snd r2)
             \<and> fst r1 = fst r2))"
proof (intro conjI impI)
  assume "backtestData = []"
  then show "runBacktest cfg clock1 strat backtestData (x, st) = Inl TypeError"
    and "runBacktest cfg clock2 strat backtestData (x, st) = Inl TypeError"
    by (simp_all add: runBacktest_empty)
next
  assume ne: "backtestData \<noteq> []"
  from runBacktest_erase [OF assms ne, of cfg clock1 x st clock2]
  obtain r1 r2 where r: "runBacktest cfg clock1 strat backtestData (x, st) = Inr r1"
    "runBacktest cfg clock2 strat backtestData (x, st) = Inr r2"
    "fst r1 = fst r2" "erase_state (snd r1) = erase_state (snd r2)"
    by blast
  from r(4) have "equityCurve (erase_state (snd r1)) = equityCurve (erase_state (snd r2))"
    "tradeLog (erase_state (snd r1)) = tradeLog (erase_state (snd r2))"
    "currentBalance (erase_state (snd r1)) = currentBalance (erase_state (snd r2))"
    "holdings (erase_state (snd r1)) = holdings (erase_state (snd r2))"
    by simp_all
  then have "equityCurve (snd r1) = equityCurve (snd r2)"
    "map erase (tradeLog (snd r1)) = map erase (tradeLog (snd r2))"
    "currentBalance (snd r1) = currentBalance (snd r2)"
    "holdings (snd r1) = holdings (snd r2)"
    by (simp_all add: erase_state_fields)
  with r(1,2,3) show "\<exists>r1 r2. runBacktest cfg clock1 strat backtestData (x, st) = Inr r1
             \<and> runBacktest cfg clock2 strat backtestData (x, st) = Inr r2
             \<and> equityCurve (snd r1) = equityCurve (snd r2)
             \<and> map erase (tradeLog (snd r1)) = map erase (tradeLog (snd r2))
             \<and> currentBalance (snd r1) = currentBalance (snd r2)
             \<and> holdings (snd r1) = holdings (snd r2)
             \<and> fst r1 = fst r2"
    by blast
qed

theorem runBacktest_deterministic_up_to_clock_witness:
  "(\<forall>x c h. blind (strat_run entry_strategy x c h))
   \<and> two_candles \<noteq> []
   \<and> (\<exists>r1 r2. runBacktest test_config clock_a entry_strategy two_candles (0, fresh_state) = Inr r1
         \<and> runBacktest test_config clock_b entry_strategy two_candles (0, fresh_state) = Inr r2
         \<and> equityCurve (snd r1) = equityCurve (snd r2)
         \<and> map erase (tradeLog (snd r1)) = map erase (tradeLog (snd r2))
         \<and> currentBalance (snd r1) = currentBalance (snd r2)
         \<and> holdings (snd r1) = holdings (snd r2)
         \<and> fst r1 = fst r2)"
proof -
  have ne: "two_candles \<noteq> []" by (simp add: two_candles_def)
  from runBacktest_deterministic_up_to_clock [OF entry_strategy_blind,
      of two_candles test_config clock_a 0 fresh_state clock_b] ne entry_strategy_blind
  show ?thesis by blast
qed

text \<open>
  The claim as the specification words it, identical trade logs with no field other than the
  id depending on the wall clock: the same strategy on the same candle, run under a clock that
  reads 1000 and under one that reads 2000, records trades whose \<open>datetime\<close> is 1000 and 2000.
  The equity curves agree.
\<close>

theorem runBacktest_datetime_counterexample:
  "map t_datetime (tradeLog_of
      (runBacktest test_config clock_a entry_strategy one_candle (0, fresh_state))) = [1000]
   \<and> map t_datetime (tradeLog_of
      (runBacktest test_config clock_b entry_strategy one_candle (0, fresh_state))) = [2000]
   \<and> equityCurve_of (runBacktest test_config clock_a entry_strategy one_candle (0, fresh_state))
      = equityCurve_of (runBacktest test_config clock_b entry_strategy one_candle (0, fresh_state))"
  by (simp add: tradeLog_of_def equityCurve_of_def runBacktest_def one_candle_def
      entry_strategy_def monitorAndExitPositions_def fresh_state_def Let_def executeTrade_def
      trackPosition_def managePosition_def js_or_def clock_a_def clock_b_def initialCapital_def
      init_entry_def qty_def)

section \<open>Trade ids within a run\<close>

lemma ids_sequential_append:
  "ids_sequential ts \<Longrightarrow> snd (t_id t) = length ts \<Longrightarrow> ids_sequential (ts @ [t])"
  by (simp add: ids_sequential_def)

lemma trackPosition_ids:
  "ids_sequential (tradeLog st)
   \<Longrightarrow> ids_sequential (tradeLog (snd (trackPosition clock s side type a p st)))"
  by (simp add: trackPosition_def Let_def ids_sequential_append)

lemma executeTrade_ids:
  "ids_sequential (tradeLog st)
   \<Longrightarrow> ids_sequential (tradeLog (snd (executeTrade cfg clock s side amount type price st)))"
  by (simp add: executeTrade_def Let_def trackPosition_ids)

lemma managePosition_log: "tradeLog (managePosition cfg s side e a rc st) = tradeLog st"
  by (simp add: managePosition_def Let_def)

lemma exec_prog_ids:
  "ids_sequential (tradeLog st) \<Longrightarrow> ids_sequential (tradeLog (snd (exec_prog cfg clock p st)))"
  by (induction p arbitrary: st) (simp_all add: Let_def executeTrade_ids managePosition_log)

lemma monitor_ids:
  "ids_sequential (tradeLog (snd sst))
   \<Longrightarrow> ids_sequential (tradeLog (snd (monitorAndExitPositions cfg clock strat s price sst)))"
  by (simp add: monitorAndExitPositions_def Let_def executeTrade_ids split: option.splits)

lemma replay_ids:
  "ids_sequential (tradeLog (snd sst))
   \<Longrightarrow> ids_sequential (tradeLog (snd (replay cfg clock strat seen cs sst)))"
proof (induction cs arbitrary: seen sst)
  case Nil
  then show ?case by simp
next
  case (Cons c cs)
  let ?m = "monitorAndExitPositions cfg clock strat (strat_symbol strat) (c_close c) sst"
  let ?e = "exec_prog cfg clock (strat_run strat (fst ?m) c (seen @ [c])) (snd ?m)"
  have "ids_sequential (tradeLog (snd ?e))"
    using Cons.prems by (intro exec_prog_ids monitor_ids)
  then show ?case
    using Cons.IH [of "(fst ?e, (snd ?e)\<lparr>equityCurve := equityCurve (snd ?e) @
        [\<lparr> e_timestamp = c_timestamp c, e_balance = currentBalance (snd ?e) \<rparr>]\<rparr>)" "seen @ [c]"]
    by (simp add: Let_def)
qed

text \<open>
  The ids of the trades of a run are pairwise distinct: the second component of the id of the
  i-th trade of the log is i.
\<close>

lemma runBacktest_ids_distinct:
  "ids_sequential (tradeLog_of (runBacktest cfg clock strat backtestData sst))
   \<and> distinct (map t_id (tradeLog_of (runBacktest cfg clock strat backtestData sst)))"
proof -
  let ?ts = "tradeLog_of (runBacktest cfg clock strat backtestData sst)"
  have s: "ids_sequential ?ts"
  proof (cases backtestData)
    case Nil
    then show ?thesis by (simp add: runBacktest_def tradeLog_of_def ids_sequential_def)
  next
    case (Cons first rest)
    have "ids_sequential (tradeLog (snd (replay cfg clock strat [] (first # rest)
            (fst sst, (snd sst)\<lparr>currentBalance := initialCapital, tradeLog := [],
               equityCurve := [\<lparr> e_timestamp = c_timestamp first,
                                 e_balance = initialCapital \<rparr>]\<rparr>))))"
      by (rule replay_ids) (simp add: ids_sequential_def)
    then show ?thesis by (simp add: runBacktest_def tradeLog_of_def Cons)
  qed
  then have "map snd (map t_id ?ts) = [0..<length ?ts]"
    by (simp add: ids_sequential_def comp_def)
  then have "distinct (map snd (map t_id ?ts))" by simp
  then have "distinct (map t_id ?ts)"
    using distinct_map [of snd "map t_id ?ts"] by blast
  with s show ?thesis by simp
qed

section \<open>Properties of the Sharpe ratio\<close>

lemma sqrt_hundredth: "sqrt (1 / 100) = 1 / 10"
  by (rule real_sqrt_unique) (simp_all add: power2_eq_square)

lemma foldl_plus_sum_list: "foldl (\<lambda>sum r. sum + r) a xs = a + sum_list xs" for a :: real
  by (induction xs arbitrary: a) simp_all

text \<open>What the code computes on a curve of at least two points: the mean of the returns,
  not of the excess returns, over the root of the mean square of the excess returns.\<close>

lemma calculateSharpeRatio_computes:
  assumes "2 \<le> length curve"
  shows "calculateSharpeRatio curve riskFreeRate =
     (let returns = step_returns curve;
          rms = sqrt (mean (map (\<lambda>x. x * x) (map (\<lambda>r. r - riskFreeRate) returns)))
      in if rms = 0 then Infinity else Num (mean returns / rms))"
proof -
  obtain p q rest where c: "curve = p # q # rest"
    using assms by (cases curve; cases "tl curve") auto
  show ?thesis
    by (simp add: calculateSharpeRatio_def c Let_def mean_def foldl_plus_sum_list)
qed

text \<open>
  Claim C7, at two equity curves with risk-free rate 0.005, the rate \<open>calculateAll\<close> passes.
  For the balances 100, 110, 99 the returns are 0.1 and -0.1: the code returns 0 (the mean of
  the returns over the root mean square of the excess returns), where the mean of the excess
  returns over their population standard deviation is -0.005 / 0.1 = -0.05. For the balances
  1000, 1005 the only excess return is 0: the code returns \<open>Infinity\<close>, where the claim gives
  0 for a mean that is not positive.
\<close>

theorem calculateSharpeRatio_differs_from_spec:
  "calculateSharpeRatio (curve_of [100, 110, 99]) (5 / 1000) = Num 0
   \<and> sharpeRatio_spec (curve_of [100, 110, 99]) (5 / 1000) = Num (- (5 / 100))
   \<and> calculateSharpeRatio (curve_of [1000, 1005]) (5 / 1000) = Infinity
   \<and> sharpeRatio_spec (curve_of [1000, 1005]) (5 / 1000) = Num 0"
proof (intro conjI)
  show "calculateSharpeRatio (curve_of [100, 110, 99]) (5 / 1000) = Num 0"
    by (simp add: calculateSharpeRatio_def curve_of_def Let_def)
  have "mean (map (\<lambda>x. (x - (- (5 / 1000))) * (x - (- (5 / 1000))))
          [95 / 1000, - (105 / 1000)]) = 1 / 100"
    by (simp add: mean_def)
  then show "sharpeRatio_spec (curve_of [100, 110, 99]) (5 / 1000) = Num (- (5 / 100))"
    by (simp add: sharpeRatio_spec_def curve_of_def Let_def mean_def sqrt_hundredth)
  show "calculateSharpeRatio (curve_of [1000, 1005]) (5 / 1000) = Infinity"
    by (simp add: calculateSharpeRatio_def curve_of_def Let_def)
  show "sharpeRatio_spec (curve_of [1000, 1005]) (5 / 1000) = Num 0"
    by (simp add: sharpeRatio_spec_def curve_of_def Let_def mean_def)
qed

end
